theory Spec2Isabelle
  imports Main
begin

section \<open>The file \<open>src-tauri/wrapper.h\<close>\<close>

text \<open>
  The repository fragment is one C++ header, \<open>wrapper.h\<close>, written for a binding
  generator.  It is embedded as the sequence of its bytes: printable ASCII as string
  literals, the UTF-8 bytes of the Chinese comments as character codes, and every line
  feed as \<open>nl\<close>.  The last line of the file is not terminated by a line feed.
\<close>

definition nl :: string where
  "nl = [CHR 0x0A]"

definition wrapper_h :: string where
  \<open>wrapper_h =
     ''// CTP API C++ '' @ [CHR 0xE5, CHR 0xA4, CHR 0xB4, CHR 0xE6, CHR 0x96, CHR 0x87,
        CHR 0xE4, CHR 0xBB, CHR 0xB6, CHR 0xE5, CHR 0x8C, CHR 0x85, CHR 0xE8, CHR 0xA3,
        CHR 0x85, CHR 0xE5, CHR 0x99, CHR 0xA8] @ nl @
     ''// '' @ [CHR 0xE7, CHR 0x94, CHR 0xA8, CHR 0xE4, CHR 0xBA, CHR 0x8E] @ '' bindgen '' @
        [CHR 0xE7, CHR 0x94, CHR 0x9F, CHR 0xE6, CHR 0x88, CHR 0x90] @ '' Rust FFI '' @
        [CHR 0xE7, CHR 0xBB, CHR 0x91, CHR 0xE5, CHR 0xAE, CHR 0x9A] @ nl @
     nl @
     ''#ifndef WRAPPER_H'' @ nl @
     ''#define WRAPPER_H'' @ nl @
     nl @
     ''// '' @ [CHR 0xE8, CHR 0xA1, CHR 0x8C, CHR 0xE6, CHR 0x83, CHR 0x85] @ '' API'' @ nl @
     ''#include "thostmduserapi_se.framework/Versions/A/Headers/ThostFtdcMdApi.h"'' @ nl @
     nl @
     ''// '' @ [CHR 0xE4, CHR 0xBA, CHR 0xA4, CHR 0xE6, CHR 0x98, CHR 0x93] @ '' API'' @ nl @
     ''#include "thosttraderapi_se.framework/Versions/A/Headers/ThostFtdcTraderApi.h"'' @ nl @
     nl @
     ''#endif // WRAPPER_H''\<close>

text \<open>The two paths and the macro name that the file mentions.\<close>

definition md_header :: string where
  "md_header = ''thostmduserapi_se.framework/Versions/A/Headers/ThostFtdcMdApi.h''"

definition trader_header :: string where
  "trader_header = ''thosttraderapi_se.framework/Versions/A/Headers/ThostFtdcTraderApi.h''"

definition guard :: string where
  "guard = ''WRAPPER_H''"


section \<open>Reading the file: physical lines and their kinds\<close>

text \<open>
  \<open>split_lines\<close> cuts the bytes at line feeds.  A last line without a line feed is a
  line; a line feed at the very end of a file would not open another one.
\<close>

fun lines_from :: "string \<Rightarrow> string \<Rightarrow> string list" where
  "lines_from cur [] = (if cur = [] then [] else [rev cur])"
| "lines_from cur (c # cs) =
     (if c = CHR 0x0A then rev cur # lines_from [] cs else lines_from (c # cur) cs)"

definition split_lines :: "string \<Rightarrow> string list" where
  "split_lines src = lines_from [] src"

definition newline_count :: "string \<Rightarrow> nat" where
  "newline_count src = length (filter (\<lambda>c. c = CHR 0x0A) src)"

definition is_space :: "char \<Rightarrow> bool" where
  "is_space c = (c = CHR '' '' \<or> c = CHR 0x09 \<or> c = CHR 0x0D)"

definition is_ident_char :: "char \<Rightarrow> bool" where
  "is_ident_char c =
     (c \<in> set ''abcdefghijklmnopqrstuvwxyzABCDEFGHIJKLMNOPQRSTUVWXYZ0123456789_'')"

definition skip_ws :: "string \<Rightarrow> string" where
  "skip_ws cs = dropWhile is_space cs"

text \<open>
  A \<open>//\<close> comment runs to the end of its line and is removed before directives are
  read, unless the two slashes stand inside a quoted string (the include paths contain
  single slashes inside quotes).  The flag says whether a quote is open.
\<close>

fun strip_comment :: "bool \<Rightarrow> string \<Rightarrow> string" where
  "strip_comment q [] = []"
| "strip_comment q (c # cs) =
     (if c = CHR 0x22 then c # strip_comment (\<not> q) cs
      else if \<not> q \<and> c = CHR ''/'' \<and> (case cs of [] \<Rightarrow> False | d # _ \<Rightarrow> d = CHR ''/'') then []
      else c # strip_comment q cs)"

text \<open>
  The kinds of line.  The four directives are the ones \<open>wrapper.h\<close> uses, in the
  forms it uses them (an include names its file in double quotes).  Any other directive
  is kept as \<open>Other_directive\<close>: the model does not interpret it and reports it when
  it is reached.  A line that is neither blank, comment nor directive is program text
  handed on to the compiler.
\<close>

datatype line =
    Blank
  | Comment
  | Ifndef string
  | Define string string
  | Include string
  | Endif
  | Other_directive string
  | Text string

definition parse_directive :: "string \<Rightarrow> line" where
  "parse_directive s =
     (let name = takeWhile is_ident_char s;
          rest = skip_ws (dropWhile is_ident_char s)
      in if name = ''ifndef'' then Ifndef (takeWhile is_ident_char rest)
         else if name = ''define'' then
           Define (takeWhile is_ident_char rest) (skip_ws (dropWhile is_ident_char rest))
         else if name = ''include'' then
           (case rest of
              [] \<Rightarrow> Other_directive s
            | c # p \<Rightarrow> if c = CHR 0x22 \<and> CHR 0x22 \<in> set p
                       then Include (takeWhile (\<lambda>d. d \<noteq> CHR 0x22) p)
                       else Other_directive s)
         else if name = ''endif'' then Endif
         else Other_directive s)"

definition parse_line :: "string \<Rightarrow> line" where
  "parse_line raw =
     (let s = skip_ws (strip_comment False raw)
      in case s of
           [] \<Rightarrow> (if skip_ws raw = [] then Blank else Comment)
         | c # cs \<Rightarrow> if c = CHR ''#'' then parse_directive (skip_ws cs) else Text s)"

definition parse_file :: "string \<Rightarrow> line list" where
  "parse_file src = map parse_line (split_lines src)"

fun is_directive :: "line \<Rightarrow> bool" where
  "is_directive (Ifndef _) = True"
| "is_directive (Define _ _) = True"
| "is_directive (Include _) = True"
| "is_directive Endif = True"
| "is_directive (Other_directive _) = True"
| "is_directive _ = False"

fun is_comment :: "line \<Rightarrow> bool" where
  "is_comment Comment = True"
| "is_comment _ = False"

fun is_blank :: "line \<Rightarrow> bool" where
  "is_blank Blank = True"
| "is_blank _ = False"

fun is_text :: "line \<Rightarrow> bool" where
  "is_text (Text _) = True"
| "is_text _ = False"

fun directive_or_comment :: "line \<Rightarrow> bool" where
  "directive_or_comment l = (is_directive l \<or> is_comment l)"

fun include_directives :: "line list \<Rightarrow> string list" where
  "include_directives [] = []"
| "include_directives (Include p # ls) = p # include_directives ls"
| "include_directives (_ # ls) = include_directives ls"

fun macro_definitions :: "line list \<Rightarrow> (string \<times> string) list" where
  "macro_definitions [] = []"
| "macro_definitions (Define n v # ls) = (n, v) # macro_definitions ls"
| "macro_definitions (_ # ls) = macro_definitions ls"


section \<open>Processing the file\<close>

text \<open>
  The macro table maps a macro name to its replacement text.  The two vendor headers
  are not part of the repository fragment, so they are a parameter: the file system
  maps a path, as written in an include directive, to the header found there, and a
  header is what processing it does to the macro table and which declaration lines it
  contributes; \<open>None\<close> is a header that cannot be processed in that macro state.
\<close>

type_synonym macros = "string \<rightharpoonup> string"

type_synonym header = "macros \<Rightarrow> (macros \<times> string list) option"

type_synonym file_system = "string \<rightharpoonup> header"

datatype error =
    Missing_header string
  | Malformed_header string
  | Unsupported_directive string
  | Endif_without_if
  | Unterminated_conditional

text \<open>
  The expansion is kept in chunks that remember their origin: text of the file being
  processed itself, or the lines contributed by one executed include directive.
\<close>

datatype chunk = Own string | Included string "string list"

fun chunk_text :: "chunk \<Rightarrow> string list" where
  "chunk_text (Own t) = [t]"
| "chunk_text (Included p ls) = ls"

definition expansion :: "chunk list \<Rightarrow> string list" where
  "expansion out = concat (map chunk_text out)"

fun own_text :: "chunk list \<Rightarrow> string list" where
  "own_text [] = []"
| "own_text (Own t # cs) = t # own_text cs"
| "own_text (Included p ls # cs) = own_text cs"

record pp_state =
  macros :: macros
  conds :: "bool list"
  emitted :: "chunk list"

definition load_header :: "file_system \<Rightarrow> string \<Rightarrow> macros \<Rightarrow> error + (macros \<times> string list)" where
  "load_header fs p m =
     (case fs p of
        None \<Rightarrow> Inl (Missing_header p)
      | Some h \<Rightarrow> (case h m of None \<Rightarrow> Inl (Malformed_header p) | Some r \<Rightarrow> Inr r))"

text \<open>
  One line.  \<open>conds\<close> is the stack of the open conditionals, innermost first; a line
  takes effect only when every open conditional holds.
\<close>

definition active :: "pp_state \<Rightarrow> bool" where
  "active s = list_all (\<lambda>b. b) (conds s)"

fun step :: "file_system \<Rightarrow> pp_state \<Rightarrow> line \<Rightarrow> error + pp_state" where
  "step fs s Blank = Inr s"
| "step fs s Comment = Inr s"
| "step fs s (Ifndef n) = Inr (s\<lparr>conds := (macros s n = None) # conds s\<rparr>)"
| "step fs s Endif =
     (case conds s of [] \<Rightarrow> Inl Endif_without_if | _ # cs \<Rightarrow> Inr (s\<lparr>conds := cs\<rparr>))"
| "step fs s (Define n v) =
     (if active s then Inr (s\<lparr>macros := (macros s)(n \<mapsto> v)\<rparr>) else Inr s)"
| "step fs s (Include p) =
     (if active s then
        (case load_header fs p (macros s) of
           Inl e \<Rightarrow> Inl e
         | Inr (m', ls) \<Rightarrow> Inr (s\<lparr>macros := m', emitted := emitted s @ [Included p ls]\<rparr>))
      else Inr s)"
| "step fs s (Other_directive d) = (if active s then Inl (Unsupported_directive d) else Inr s)"
| "step fs s (Text t) = (if active s then Inr (s\<lparr>emitted := emitted s @ [Own t]\<rparr>) else Inr s)"

fun run :: "file_system \<Rightarrow> pp_state \<Rightarrow> line list \<Rightarrow> error + pp_state" where
  "run fs s [] = Inr s"
| "run fs s (l # ls) = (case step fs s l of Inl e \<Rightarrow> Inl e | Inr s' \<Rightarrow> run fs s' ls)"

definition process_file :: "file_system \<Rightarrow> macros \<Rightarrow> string \<Rightarrow> error + (macros \<times> chunk list)" where
  "process_file fs m src =
     (case run fs \<lparr>macros = m, conds = [], emitted = []\<rparr> (parse_file src) of
        Inl e \<Rightarrow> Inl e
      | Inr s \<Rightarrow> if conds s = [] then Inr (macros s, emitted s) else Inl Unterminated_conditional)"

text \<open>Including \<open>wrapper.h\<close> at a point of a translation unit where the macro table is \<open>m\<close>.\<close>

definition include_wrapper :: "file_system \<Rightarrow> macros \<Rightarrow> error + (macros \<times> chunk list)" where
  "include_wrapper fs m = process_file fs m wrapper_h"

text \<open>The paths of the include directives that were executed, in order.\<close>

fun included_paths :: "chunk list \<Rightarrow> string list" where
  "included_paths [] = []"
| "included_paths (Own t # cs) = included_paths cs"
| "included_paths (Included p ls # cs) = p # included_paths cs"

text \<open>
  \<open>n\<close> inclusions of \<open>wrapper.h\<close> one after the other in the same translation unit:
  each starts from the macro table the previous one left, and the expansions are
  concatenated.
\<close>

fun include_times :: "nat \<Rightarrow> file_system \<Rightarrow> macros \<Rightarrow> error + (macros \<times> chunk list)" where
  "include_times 0 fs m = Inr (m, [])"
| "include_times (Suc n) fs m =
     (case include_wrapper fs m of
        Inl e \<Rightarrow> Inl e
      | Inr (m1, out1) \<Rightarrow>
          (case include_times n fs m1 of
             Inl e \<Rightarrow> Inl e
           | Inr (m2, out2) \<Rightarrow> Inr (m2, out1 @ out2)))"


section \<open>The binding generator\<close>




section \<open>Example configurations\<close>

text \<open>
  Stand-ins for the vendor headers, used to run the theorems below on concrete inputs.
  They are examples only: each defines a guard macro of its own and contributes two
  class declarations.
\<close>

definition example_md :: header where
  "example_md m =
     Some (m(''THOST_FTDCMDAPI_H'' \<mapsto> []),
           [''class CThostFtdcMdSpi;'', ''class CThostFtdcMdApi;''])"

definition example_trader :: header where
  "example_trader m =
     Some (m(''THOST_FTDCTRADERAPI_H'' \<mapsto> []),
           [''class CThostFtdcTraderSpi;'', ''class CThostFtdcTraderApi;''])"

definition example_fs :: file_system where
  "example_fs = [md_header \<mapsto> example_md, trader_header \<mapsto> example_trader]"


section \<open>The lines of the file\<close>

text \<open>
  The file is 316 bytes long.  It has no backslash and no asterisk, hence no line
  continuation and no block comment: reading it line by line, with \<open>//\<close> comments
  only, loses nothing.
\<close>

lemma wrapper_h_plain:
  "length wrapper_h = 316 \<and> CHR 0x5C \<notin> set wrapper_h \<and> CHR ''*'' \<notin> set wrapper_h"
  by (simp add: wrapper_h_def nl_def)

lemma wrapper_h_lines:
  "split_lines wrapper_h =
     [''// CTP API C++ '' @ [CHR 0xE5, CHR 0xA4, CHR 0xB4, CHR 0xE6, CHR 0x96, CHR 0x87,
        CHR 0xE4, CHR 0xBB, CHR 0xB6, CHR 0xE5, CHR 0x8C, CHR 0x85, CHR 0xE8, CHR 0xA3,
        CHR 0x85, CHR 0xE5, CHR 0x99, CHR 0xA8],
      ''// '' @ [CHR 0xE7, CHR 0x94, CHR 0xA8, CHR 0xE4, CHR 0xBA, CHR 0x8E] @ '' bindgen '' @
        [CHR 0xE7, CHR 0x94, CHR 0x9F, CHR 0xE6, CHR 0x88, CHR 0x90] @ '' Rust FFI '' @
        [CHR 0xE7, CHR 0xBB, CHR 0x91, CHR 0xE5, CHR 0xAE, CHR 0x9A],
      [],
      ''#ifndef WRAPPER_H'',
      ''#define WRAPPER_H'',
      [],
      ''// '' @ [CHR 0xE8, CHR 0xA1, CHR 0x8C, CHR 0xE6, CHR 0x83, CHR 0x85] @ '' API'',
      CHR ''#'' # ''include '' @ [CHR 0x22] @ md_header @ [CHR 0x22],
      [],
      ''// '' @ [CHR 0xE4, CHR 0xBA, CHR 0xA4, CHR 0xE6, CHR 0x98, CHR 0x93] @ '' API'',
      CHR ''#'' # ''include '' @ [CHR 0x22] @ trader_header @ [CHR 0x22],
      [],
      ''#endif // WRAPPER_H'']"
  by (simp add: split_lines_def wrapper_h_def nl_def md_header_def trader_header_def)

lemma wrapper_h_parsed:
  "parse_file wrapper_h =
     [Comment, Comment, Blank,
      Ifndef guard, Define guard [], Blank,
      Comment, Include md_header, Blank,
      Comment, Include trader_header, Blank,
      Endif]"
  unfolding parse_file_def wrapper_h_lines
  by (simp add: parse_line_def parse_directive_def skip_ws_def is_space_def is_ident_char_def
      md_header_def trader_header_def guard_def)


section \<open>What one inclusion does\<close>

text \<open>
  Two cases, decided by the include guard: with \<open>WRAPPER_H\<close> already defined the file
  contributes nothing and changes nothing; otherwise it defines \<open>WRAPPER_H\<close> (with an
  empty replacement text), loads the market-data header in that macro table, and loads
  the trading header in the table the market-data header left.
\<close>

lemma header_paths_differ: "md_header \<noteq> trader_header"
  by (simp add: md_header_def trader_header_def)

lemma include_wrapper_guarded_Some:
  "m guard = Some v \<Longrightarrow> include_wrapper fs m = Inr (m, [])"
  unfolding include_wrapper_def process_file_def wrapper_h_parsed
  by (simp add: active_def)

lemma include_wrapper_guarded:
  "m guard \<noteq> None \<Longrightarrow> include_wrapper fs m = Inr (m, [])"
  using include_wrapper_guarded_Some by (cases "m guard") simp_all

lemma include_wrapper_first:
  "m guard = None \<Longrightarrow>
   include_wrapper fs m =
     (case load_header fs md_header (m(guard \<mapsto> [])) of
        Inl e \<Rightarrow> Inl e
      | Inr (m1, o1) \<Rightarrow>
          (case load_header fs trader_header m1 of
             Inl e \<Rightarrow> Inl e
           | Inr (m2, o2) \<Rightarrow> Inr (m2, [Included md_header o1, Included trader_header o2])))"
  unfolding include_wrapper_def process_file_def wrapper_h_parsed
  by (simp add: active_def split: sum.splits prod.splits)

lemma load_header_error:
  "load_header fs p m = Inl e \<Longrightarrow> e = Missing_header p \<or> e = Malformed_header p"
  by (auto simp: load_header_def split: option.splits)

lemma include_times_guarded:
  "m guard \<noteq> None \<Longrightarrow> include_times n fs m = Inr (m, [])"
  by (induction n) (simp_all add: include_wrapper_guarded)


section \<open>Properties of \<open>wrapper.h\<close>\<close>

text \<open>
  C1.  Processed where \<open>WRAPPER_H\<close> is not yet defined (the binding generator is run on
  the file itself), \<open>wrapper.h\<close> expands to the text of exactly two headers, the
  market-data header \<open>ThostFtdcMdApi.h\<close> followed by the trading header
  \<open>ThostFtdcTraderApi.h\<close>, in one expansion.  The file holds exactly these two include
  directives, so no other header reaches the binding generator through it.
\<close>

theorem wrapper_expands_to_two_vendor_headers:
  assumes "m guard = None" and "include_wrapper fs m = Inr (m', out)"
  shows "include_directives (parse_file wrapper_h) = [md_header, trader_header] \<and>
         included_paths out = [md_header, trader_header] \<and>
         (\<exists>m1 o1 o2.
            load_header fs md_header (m(guard \<mapsto> [])) = Inr (m1, o1) \<and>
            load_header fs trader_header m1 = Inr (m', o2) \<and>
            out = [Included md_header o1, Included trader_header o2] \<and>
            expansion out = o1 @ o2)"
proof -
  have static: "include_directives (parse_file wrapper_h) = [md_header, trader_header]"
    by (simp add: wrapper_h_parsed)
  from assms obtain m1 o1 where md: "load_header fs md_header (m(guard \<mapsto> [])) = Inr (m1, o1)"
    by (auto simp: include_wrapper_first split: sum.splits)
  with assms obtain o2 where tr: "load_header fs trader_header m1 = Inr (m', o2)"
    and out: "out = [Included md_header o1, Included trader_header o2]"
    by (auto simp: include_wrapper_first split: sum.splits)
  from out have "included_paths out = [md_header, trader_header]" "expansion out = o1 @ o2"
    by (simp_all add: expansion_def)
  with static md tr out show ?thesis by blast
qed

theorem wrapper_expands_to_two_vendor_headers_witness:
  "(Map.empty :: macros) guard = None \<and>
   include_wrapper example_fs Map.empty =
     Inr ([guard \<mapsto> [], ''THOST_FTDCMDAPI_H'' \<mapsto> [], ''THOST_FTDCTRADERAPI_H'' \<mapsto> []],
          [Included md_header [''class CThostFtdcMdSpi;'', ''class CThostFtdcMdApi;''],
           Included trader_header [''class CThostFtdcTraderSpi;'', ''class CThostFtdcTraderApi;'']]) \<and>
   included_paths
     [Included md_header [''class CThostFtdcMdSpi;'', ''class CThostFtdcMdApi;''],
      Included trader_header [''class CThostFtdcTraderSpi;'', ''class CThostFtdcTraderApi;'']] =
     [md_header, trader_header] \<and>
   expansion
     [Included md_header [''class CThostFtdcMdSpi;'', ''class CThostFtdcMdApi;''],
      Included trader_header [''class CThostFtdcTraderSpi;'', ''class CThostFtdcTraderApi;'']] =
     [''class CThostFtdcMdSpi;'', ''class CThostFtdcMdApi;'',
      ''class CThostFtdcTraderSpi;'', ''class CThostFtdcTraderApi;'']"
proof -
  have g: "(Map.empty :: macros) guard = None" by simp
  have r: "include_wrapper example_fs Map.empty =
     Inr ([guard \<mapsto> [], ''THOST_FTDCMDAPI_H'' \<mapsto> [], ''THOST_FTDCTRADERAPI_H'' \<mapsto> []],
          [Included md_header [''class CThostFtdcMdSpi;'', ''class CThostFtdcMdApi;''],
           Included trader_header [''class CThostFtdcTraderSpi;'', ''class CThostFtdcTraderApi;'']])"
    by (simp add: include_wrapper_first load_header_def example_fs_def example_md_def
        example_trader_def header_paths_differ)
  from wrapper_expands_to_two_vendor_headers [OF g r] g r show ?thesis
    by (auto simp: expansion_def)
qed

text \<open>
  C2.  Where \<open>WRAPPER_H\<close> is not yet defined, processing \<open>wrapper.h\<close> fails if and only
  if one of the two vendor headers fails to load: the market-data header is missing or
  malformed, or it loads and the trading header is then missing or malformed.  In
  particular it fails whenever one of the two paths is missing.  In every macro state,
  a failure of \<open>wrapper.h\<close> is the failure of one of these two headers: the file has
  no failure of its own (no unsupported directive, no unbalanced conditional), so with
  both headers present and well-formed it is processed without error.
\<close>

theorem wrapper_fails_iff_vendor_header_fails:
  "(m guard = None \<longrightarrow>
      (isl (include_wrapper fs m) \<longleftrightarrow>
         isl (load_header fs md_header (m(guard \<mapsto> []))) \<or>
         (\<exists>m1 o1. load_header fs md_header (m(guard \<mapsto> [])) = Inr (m1, o1) \<and>
                  isl (load_header fs trader_header m1)))) \<and>
   (m guard = None \<and> (fs md_header = None \<or> fs trader_header = None) \<longrightarrow>
      isl (include_wrapper fs m)) \<and>
   (\<forall>e. include_wrapper fs m = Inl e \<longrightarrow>
        e \<in> {Missing_header md_header, Malformed_header md_header,
             Missing_header trader_header, Malformed_header trader_header})"
proof (cases "m guard")
  case (Some v)
  then show ?thesis by (simp add: include_wrapper_guarded)
next
  case None
  show ?thesis
  proof (cases "load_header fs md_header (m(guard \<mapsto> []))")
    case (Inl e)
    with None have "include_wrapper fs m = Inl e"
      by (simp add: include_wrapper_first)
    with Inl load_header_error [OF Inl] show ?thesis by auto
  next
    case (Inr r)
    obtain m1 o1 where r: "r = (m1, o1)" by (cases r)
    from Inr have md_present: "fs md_header \<noteq> None"
      by (auto simp: load_header_def split: option.splits)
    show ?thesis
    proof (cases "load_header fs trader_header m1")
      case (Inl e)
      with None Inr r have "include_wrapper fs m = Inl e"
        by (simp add: include_wrapper_first)
      with Inl Inr r load_header_error [OF Inl] show ?thesis by auto
    next
      case Inr2: (Inr r2)
      then have tr_present: "fs trader_header \<noteq> None"
        by (auto simp: load_header_def split: option.splits)
      from None Inr Inr2 r have "\<exists>res. include_wrapper fs m = Inr res"
        by (simp add: include_wrapper_first split: prod.splits)
      with Inr Inr2 r md_present tr_present show ?thesis by auto
    qed
  qed
qed

theorem wrapper_fails_iff_vendor_header_fails_witness:
  "(Map.empty :: macros) guard = None \<and>
   include_wrapper (example_fs(trader_header := None)) Map.empty =
     Inl (Missing_header trader_header) \<and>
   load_header (example_fs(trader_header := None)) md_header [guard \<mapsto> []] =
     Inr ([guard \<mapsto> [], ''THOST_FTDCMDAPI_H'' \<mapsto> []],
          [''class CThostFtdcMdSpi;'', ''class CThostFtdcMdApi;'']) \<and>
   isl (load_header (example_fs(trader_header := None)) trader_header
          [guard \<mapsto> [], ''THOST_FTDCMDAPI_H'' \<mapsto> []]) \<and>
   isl (include_wrapper (example_fs(trader_header := None)) Map.empty) \<and>
   Missing_header trader_header \<in>
     {Missing_header md_header, Malformed_header md_header,
      Missing_header trader_header, Malformed_header trader_header} \<and>
   (example_fs(trader_header := None)) trader_header = None \<and>
   \<not> isl (include_wrapper example_fs Map.empty)"
proof -
  have g: "(Map.empty :: macros) guard = None" by simp
  have r: "include_wrapper (example_fs(trader_header := None)) Map.empty =
             Inl (Missing_header trader_header)"
    by (simp add: include_wrapper_first load_header_def example_fs_def example_md_def
        header_paths_differ)
  have md: "load_header (example_fs(trader_header := None)) md_header [guard \<mapsto> []] =
     Inr ([guard \<mapsto> [], ''THOST_FTDCMDAPI_H'' \<mapsto> []],
          [''class CThostFtdcMdSpi;'', ''class CThostFtdcMdApi;''])"
    by (simp add: load_header_def example_fs_def example_md_def header_paths_differ)
  have tr: "isl (load_header (example_fs(trader_header := None)) trader_header
          [guard \<mapsto> [], ''THOST_FTDCMDAPI_H'' \<mapsto> []])"
    by (simp add: load_header_def)
  have ok: "\<not> isl (include_wrapper example_fs Map.empty)"
    by (simp add: include_wrapper_first load_header_def example_fs_def example_md_def
        example_trader_def header_paths_differ)
  have miss: "(example_fs(trader_header := None)) trader_header = None" by simp
  from wrapper_fails_iff_vendor_header_fails [of Map.empty "example_fs(trader_header := None)"]
    g r md tr ok miss show ?thesis by blast
qed

text \<open>
  C3, as the file has it.  The file has 13 lines, held apart by 12 line feeds (the last
  line is not terminated): 5 preprocessor directives, 4 comment lines and 4 blank lines.
  No line is program text, so the file has 0 lines of original logic.
\<close>

theorem wrapper_line_census:
  "length (split_lines wrapper_h) = 13 \<and>
   newline_count wrapper_h = 12 \<and>
   length (filter is_directive (parse_file wrapper_h)) = 5 \<and>
   length (filter is_comment (parse_file wrapper_h)) = 4 \<and>
   length (filter is_blank (parse_file wrapper_h)) = 4 \<and>
   filter is_text (parse_file wrapper_h) = []"
proof -
  have "length (split_lines wrapper_h) = 13"
    by (simp add: wrapper_h_lines)
  moreover have "newline_count wrapper_h = 12"
    by (simp add: newline_count_def wrapper_h_def nl_def)
  ultimately show ?thesis
    by (simp add: wrapper_h_parsed)
qed

text \<open>
  C3, as the specification words it, does not hold: the file does not have exactly 12
  lines, and not every line is a directive or a comment; the third line, for one, is
  blank.
\<close>

theorem wrapper_line_census_counterexample:
  "length (split_lines wrapper_h) \<noteq> 12 \<and>
   \<not> list_all directive_or_comment (parse_file wrapper_h) \<and>
   parse_file wrapper_h ! 2 = Blank"
proof -
  have "length (split_lines wrapper_h) = 13"
    by (simp add: wrapper_h_lines)
  then show ?thesis
    by (simp add: wrapper_h_parsed)
qed

text \<open>
  C4.  \<open>wrapper.h\<close> contributes nothing of its own to a translation unit that includes
  it: no line of the file is program text, and in every macro state and for every pair
  of vendor headers the expansion holds no chunk of the file's own; whatever it holds
  was contributed by the market-data header or the trading header.
\<close>

theorem wrapper_contributes_no_text:
  assumes "include_wrapper fs m = Inr (m', out)"
  shows "filter is_text (parse_file wrapper_h) = [] \<and> own_text out = [] \<and>
         set (included_paths out) \<subseteq> {md_header, trader_header}"
proof (cases "m guard")
  case None
  with assms show ?thesis
    by (auto simp: include_wrapper_first wrapper_h_parsed split: sum.splits)
next
  case (Some v)
  with assms show ?thesis
    by (auto simp: include_wrapper_guarded wrapper_h_parsed)
qed

theorem wrapper_contributes_no_text_witness:
  "include_wrapper example_fs Map.empty =
     Inr ([guard \<mapsto> [], ''THOST_FTDCMDAPI_H'' \<mapsto> [], ''THOST_FTDCTRADERAPI_H'' \<mapsto> []],
          [Included md_header [''class CThostFtdcMdSpi;'', ''class CThostFtdcMdApi;''],
           Included trader_header [''class CThostFtdcTraderSpi;'', ''class CThostFtdcTraderApi;'']]) \<and>
   filter is_text (parse_file wrapper_h) = [] \<and>
   own_text
     [Included md_header [''class CThostFtdcMdSpi;'', ''class CThostFtdcMdApi;''],
      Included trader_header [''class CThostFtdcTraderSpi;'', ''class CThostFtdcTraderApi;'']] = []"
proof -
  have r: "include_wrapper example_fs Map.empty =
     Inr ([guard \<mapsto> [], ''THOST_FTDCMDAPI_H'' \<mapsto> [], ''THOST_FTDCTRADERAPI_H'' \<mapsto> []],
          [Included md_header [''class CThostFtdcMdSpi;'', ''class CThostFtdcMdApi;''],
           Included trader_header [''class CThostFtdcTraderSpi;'', ''class CThostFtdcTraderApi;'']])"
    by (simp add: include_wrapper_first load_header_def example_fs_def example_md_def
        example_trader_def header_paths_differ)
  from wrapper_contributes_no_text [OF r] r show ?thesis by blast
qed



text \<open>
  C6.  Inclusion is idempotent within one translation unit.  The first inclusion, where
  \<open>WRAPPER_H\<close> is not defined, defines it and expands the two vendor includes.  When
  \<open>WRAPPER_H\<close> is still defined in the macro table the inclusion left (the vendor headers
  have not undefined it), including the file again expands to nothing and changes
  nothing, so any number of inclusions in a row gives what the first one gave, and each
  vendor header is pulled in through this file at most once.
\<close>

theorem wrapper_inclusion_idempotent:
  assumes "include_wrapper fs m = Inr (m1, out1)" and "m1 guard \<noteq> None"
  shows "(m guard = None \<longrightarrow>
            (\<exists>ma o1 o2. load_header fs md_header (m(guard \<mapsto> [])) = Inr (ma, o1) \<and>
                        load_header fs trader_header ma = Inr (m1, o2) \<and>
                        out1 = [Included md_header o1, Included trader_header o2])) \<and>
         include_wrapper fs m1 = Inr (m1, []) \<and>
         include_times (Suc n) fs m = Inr (m1, out1) \<and>
         count_list (included_paths out1) md_header \<le> 1 \<and>
         count_list (included_paths out1) trader_header \<le> 1"
proof -
  have first: "m guard = None \<longrightarrow>
      (\<exists>ma o1 o2. load_header fs md_header (m(guard \<mapsto> [])) = Inr (ma, o1) \<and>
                  load_header fs trader_header ma = Inr (m1, o2) \<and>
                  out1 = [Included md_header o1, Included trader_header o2])"
    using assms(1) by (auto simp: include_wrapper_first split: sum.splits)
  have again: "include_wrapper fs m1 = Inr (m1, [])"
    using assms(2) by (rule include_wrapper_guarded)
  have times: "include_times (Suc n) fs m = Inr (m1, out1)"
    using assms by (simp add: include_times_guarded)
  have once: "count_list (included_paths out1) md_header \<le> 1 \<and>
              count_list (included_paths out1) trader_header \<le> 1"
  proof (cases "m guard")
    case None
    with first obtain o1 o2 where "out1 = [Included md_header o1, Included trader_header o2]"
      by blast
    then show ?thesis using header_paths_differ by auto
  next
    case (Some v)
    with assms(1) have "out1 = []" by (simp add: include_wrapper_guarded)
    then show ?thesis by simp
  qed
  from first again times once show ?thesis by blast
qed

theorem wrapper_inclusion_idempotent_witness:
  "include_wrapper example_fs Map.empty =
     Inr ([guard \<mapsto> [], ''THOST_FTDCMDAPI_H'' \<mapsto> [], ''THOST_FTDCTRADERAPI_H'' \<mapsto> []],
          [Included md_header [''class CThostFtdcMdSpi;'', ''class CThostFtdcMdApi;''],
           Included trader_header [''class CThostFtdcTraderSpi;'', ''class CThostFtdcTraderApi;'']]) \<and>
   [guard \<mapsto> [], ''THOST_FTDCMDAPI_H'' \<mapsto> [], ''THOST_FTDCTRADERAPI_H'' \<mapsto> []] guard \<noteq> None \<and>
   (Map.empty :: macros) guard = None \<and>
   include_wrapper example_fs
       [guard \<mapsto> [], ''THOST_FTDCMDAPI_H'' \<mapsto> [], ''THOST_FTDCTRADERAPI_H'' \<mapsto> []] =
     Inr ([guard \<mapsto> [], ''THOST_FTDCMDAPI_H'' \<mapsto> [], ''THOST_FTDCTRADERAPI_H'' \<mapsto> []], []) \<and>
   include_times 3 example_fs Map.empty =
     Inr ([guard \<mapsto> [], ''THOST_FTDCMDAPI_H'' \<mapsto> [], ''THOST_FTDCTRADERAPI_H'' \<mapsto> []],
          [Included md_header [''class CThostFtdcMdSpi;'', ''class CThostFtdcMdApi;''],
           Included trader_header [''class CThostFtdcTraderSpi;'', ''class CThostFtdcTraderApi;'']])"
proof -
  have r: "include_wrapper example_fs Map.empty =
     Inr ([guard \<mapsto> [], ''THOST_FTDCMDAPI_H'' \<mapsto> [], ''THOST_FTDCTRADERAPI_H'' \<mapsto> []],
          [Included md_header [''class CThostFtdcMdSpi;'', ''class CThostFtdcMdApi;''],
           Included trader_header [''class CThostFtdcTraderSpi;'', ''class CThostFtdcTraderApi;'']])"
    by (simp add: include_wrapper_first load_header_def example_fs_def example_md_def
        example_trader_def header_paths_differ)
  have g1: "[guard \<mapsto> [], ''THOST_FTDCMDAPI_H'' \<mapsto> [], ''THOST_FTDCTRADERAPI_H'' \<mapsto> []] guard \<noteq> None"
    by (simp add: guard_def)
  have g: "(Map.empty :: macros) guard = None" by simp
  have three: "(3::nat) = Suc 2" by simp
  from wrapper_inclusion_idempotent [OF r g1, of 2] r g1 g show ?thesis
    unfolding three by blast
qed

text \<open>
  C7.  The include of the market-data header (line 8 of the file) comes before the
  include of the trading header (line 11).  In the expansion of a first inclusion every
  line of the market-data header precedes every line of the trading header.  The
  trading header is processed in the macro table the market-data header left, so it
  can refer to what that header introduced; the market-data header is processed before
  the trading header is looked at, so its contribution is the same whatever stands at
  the trading header's path.
\<close>

theorem market_data_before_trading:
  assumes "m guard = None" and "include_wrapper fs m = Inr (m', out)"
  shows "parse_file wrapper_h ! 7 = Include md_header \<and>
         parse_file wrapper_h ! 10 = Include trader_header \<and>
         (\<exists>m1 o1 o2.
            load_header fs md_header (m(guard \<mapsto> [])) = Inr (m1, o1) \<and>
            load_header fs trader_header m1 = Inr (m', o2) \<and>
            out = [Included md_header o1, Included trader_header o2] \<and>
            take (length o1) (expansion out) = o1 \<and>
            drop (length o1) (expansion out) = o2 \<and>
            (\<forall>t. load_header (fs(trader_header := t)) md_header (m(guard \<mapsto> [])) = Inr (m1, o1)))"
proof -
  have pos: "parse_file wrapper_h ! 7 = Include md_header"
    "parse_file wrapper_h ! 10 = Include trader_header"
    by (simp_all add: wrapper_h_parsed)
  from assms obtain m1 o1 where md: "load_header fs md_header (m(guard \<mapsto> [])) = Inr (m1, o1)"
    by (auto simp: include_wrapper_first split: sum.splits)
  with assms obtain o2 where tr: "load_header fs trader_header m1 = Inr (m', o2)"
    and out: "out = [Included md_header o1, Included trader_header o2]"
    by (auto simp: include_wrapper_first split: sum.splits)
  from out have ord: "take (length o1) (expansion out) = o1" "drop (length o1) (expansion out) = o2"
    by (simp_all add: expansion_def)
  have indep: "\<forall>t. load_header (fs(trader_header := t)) md_header (m(guard \<mapsto> [])) = Inr (m1, o1)"
    using md header_paths_differ by (simp add: load_header_def)
  from pos md tr out ord indep show ?thesis by blast
qed

theorem market_data_before_trading_witness:
  "(Map.empty :: macros) guard = None \<and>
   include_wrapper example_fs Map.empty =
     Inr ([guard \<mapsto> [], ''THOST_FTDCMDAPI_H'' \<mapsto> [], ''THOST_FTDCTRADERAPI_H'' \<mapsto> []],
          [Included md_header [''class CThostFtdcMdSpi;'', ''class CThostFtdcMdApi;''],
           Included trader_header [''class CThostFtdcTraderSpi;'', ''class CThostFtdcTraderApi;'']]) \<and>
   parse_file wrapper_h ! 7 = Include md_header \<and>
   parse_file wrapper_h ! 10 = Include trader_header \<and>
   expansion
     [Included md_header [''class CThostFtdcMdSpi;'', ''class CThostFtdcMdApi;''],
      Included trader_header [''class CThostFtdcTraderSpi;'', ''class CThostFtdcTraderApi;'']] =
     [''class CThostFtdcMdSpi;'', ''class CThostFtdcMdApi;'',
      ''class CThostFtdcTraderSpi;'', ''class CThostFtdcTraderApi;'']"
proof -
  have g: "(Map.empty :: macros) guard = None" by simp
  have r: "include_wrapper example_fs Map.empty =
     Inr ([guard \<mapsto> [], ''THOST_FTDCMDAPI_H'' \<mapsto> [], ''THOST_FTDCTRADERAPI_H'' \<mapsto> []],
          [Included md_header [''class CThostFtdcMdSpi;'', ''class CThostFtdcMdApi;''],
           Included trader_header [''class CThostFtdcTraderSpi;'', ''class CThostFtdcTraderApi;'']])"
    by (simp add: include_wrapper_first load_header_def example_fs_def example_md_def
        example_trader_def header_paths_differ)
  from market_data_before_trading [OF g r] g r show ?thesis
    by (auto simp: expansion_def)
qed

text \<open>
  C8.  The file holds exactly one macro definition, of \<open>WRAPPER_H\<close> with an empty
  replacement text, and contributes no declaration of its own.  For every macro name
  that the two vendor headers leave alone, the macro table after the inclusion agrees
  with the table before it, except that \<open>WRAPPER_H\<close> is now defined if it was not.
\<close>

theorem wrapper_defines_only_guard:
  assumes "include_wrapper fs m = Inr (m', out)"
    and "\<forall>p \<in> {md_header, trader_header}. \<forall>h a b ls.
           fs p = Some h \<longrightarrow> h a = Some (b, ls) \<longrightarrow> b n = a n"
  shows "macro_definitions (parse_file wrapper_h) = [(guard, [])] \<and>
         own_text out = [] \<and>
         m' n = (if n = guard \<and> m n = None then Some [] else m n)"
proof -
  have keep: "load_header fs p a = Inr (b, ls) \<Longrightarrow> p \<in> {md_header, trader_header} \<Longrightarrow> b n = a n"
    for p a b ls
    using assms(2) by (auto simp: load_header_def split: option.splits)
  have static: "macro_definitions (parse_file wrapper_h) = [(guard, [])]"
    by (simp add: wrapper_h_parsed)
  show ?thesis
  proof (cases "m guard")
    case (Some v)
    with assms(1) have "m' = m" "out = []" by (simp_all add: include_wrapper_guarded)
    with static Some show ?thesis by auto
  next
    case None
    with assms(1) obtain m1 o1 where md: "load_header fs md_header (m(guard \<mapsto> [])) = Inr (m1, o1)"
      by (auto simp: include_wrapper_first split: sum.splits)
    with None assms(1) obtain o2 where tr: "load_header fs trader_header m1 = Inr (m', o2)"
      and out: "out = [Included md_header o1, Included trader_header o2]"
      by (auto simp: include_wrapper_first split: sum.splits)
    from keep [OF md] keep [OF tr] have "m' n = (m(guard \<mapsto> [])) n" by simp
    with static out None show ?thesis by auto
  qed
qed

theorem wrapper_defines_only_guard_witness:
  "include_wrapper example_fs [''NDEBUG'' \<mapsto> ''1''] =
     Inr ([''NDEBUG'' \<mapsto> ''1'', guard \<mapsto> [], ''THOST_FTDCMDAPI_H'' \<mapsto> [],
           ''THOST_FTDCTRADERAPI_H'' \<mapsto> []],
          [Included md_header [''class CThostFtdcMdSpi;'', ''class CThostFtdcMdApi;''],
           Included trader_header [''class CThostFtdcTraderSpi;'', ''class CThostFtdcTraderApi;'']]) \<and>
   macro_definitions (parse_file wrapper_h) = [(guard, [])] \<and>
   [''NDEBUG'' \<mapsto> ''1'', guard \<mapsto> [], ''THOST_FTDCMDAPI_H'' \<mapsto> [],
    ''THOST_FTDCTRADERAPI_H'' \<mapsto> []] ''NDEBUG'' = Some ''1'' \<and>
   [''NDEBUG'' \<mapsto> ''1'', guard \<mapsto> [], ''THOST_FTDCMDAPI_H'' \<mapsto> [],
    ''THOST_FTDCTRADERAPI_H'' \<mapsto> []] guard = Some []"
proof -
  have r: "include_wrapper example_fs [''NDEBUG'' \<mapsto> ''1''] =
     Inr ([''NDEBUG'' \<mapsto> ''1'', guard \<mapsto> [], ''THOST_FTDCMDAPI_H'' \<mapsto> [],
           ''THOST_FTDCTRADERAPI_H'' \<mapsto> []],
          [Included md_header [''class CThostFtdcMdSpi;'', ''class CThostFtdcMdApi;''],
           Included trader_header [''class CThostFtdcTraderSpi;'', ''class CThostFtdcTraderApi;'']])"
    by (simp add: include_wrapper_first load_header_def example_fs_def example_md_def
        example_trader_def header_paths_differ guard_def)
  have k: "\<forall>p \<in> {md_header, trader_header}. \<forall>h a b ls.
             example_fs p = Some h \<longrightarrow> h a = Some (b, ls) \<longrightarrow> b n = a n"
    if "n \<noteq> ''THOST_FTDCMDAPI_H''" "n \<noteq> ''THOST_FTDCTRADERAPI_H''" for n
    using that by (auto simp: example_fs_def example_md_def example_trader_def header_paths_differ)
  have k1: "\<forall>p \<in> {md_header, trader_header}. \<forall>h a b ls.
             example_fs p = Some h \<longrightarrow> h a = Some (b, ls) \<longrightarrow> b ''NDEBUG'' = a ''NDEBUG''"
    by (rule k) simp_all
  have k2: "\<forall>p \<in> {md_header, trader_header}. \<forall>h a b ls.
             example_fs p = Some h \<longrightarrow> h a = Some (b, ls) \<longrightarrow> b guard = a guard"
    by (rule k) (simp_all add: guard_def)
  have d: "''NDEBUG'' \<noteq> guard" "[''NDEBUG'' \<mapsto> ''1''] guard = None"
    by (simp_all add: guard_def)
  from wrapper_defines_only_guard [OF r k1] wrapper_defines_only_guard [OF r k2] r d
  show ?thesis by simp
qed

end
